theory Spec2Isabelle
  imports Main
begin

section \<open>Values of the host language\<close>

text \<open>
  The bulk import service (\<^verbatim>\<open>BulkImportService\<close>) is TypeScript. Strings are modelled
  as \<^typ>\<open>string\<close>, one \<^typ>\<open>char\<close> per code unit (code units below 256).
  A thrown value is either an \<^verbatim>\<open>Error\<close> with its message or something else; the
  service's catch blocks read \<^verbatim>\<open>error instanceof Error ? error.message : 'Unknown error'\<close>.
\<close>

datatype exn = Error string | NonError

fun message_of :: "exn \<Rightarrow> string" where
  "message_of (Error m) = m"
| "message_of NonError = ''Unknown error''"

text \<open>
  Values as \<^verbatim>\<open>JSON.parse\<close> returns them and \<^verbatim>\<open>JSON.stringify\<close> reads them, with
  \<^verbatim>\<open>undefined\<close> for an absent property. Numbers are integers here: fractional numbers are
  floating point and lie outside the model.
\<close>

datatype jsval =
    JUndefined
  | JNull
  | JBool bool
  | JNum int
  | JStr string
  | JArr "jsval list"
  | JObj "(string \<times> jsval) list"

text \<open>Truthiness, as \<^verbatim>\<open>x ? a : b\<close> and \<^verbatim>\<open>!x\<close> test it.\<close>

fun truthy :: "jsval \<Rightarrow> bool" where
  "truthy JUndefined = False"
| "truthy JNull = False"
| "truthy (JBool b) = b"
| "truthy (JNum n) = (n \<noteq> 0)"
| "truthy (JStr s) = (s \<noteq> [])"
| "truthy (JArr _) = True"
| "truthy (JObj _) = True"

text \<open>
  A value of type \<^verbatim>\<open>string | undefined\<close> (or \<^verbatim>\<open>string | null\<close>) is a
  \<^typ>\<open>string option\<close>; it is falsy when absent or empty. \<^verbatim>\<open>x || d\<close> on such a value:
\<close>

fun falsy :: "string option \<Rightarrow> bool" where
  "falsy None = True"
| "falsy (Some s) = (s = [])"

fun or_else :: "string option \<Rightarrow> string \<Rightarrow> string" where
  "or_else None d = d"
| "or_else (Some s) d = (if s = [] then d else s)"

subsection \<open>String primitives\<close>

text \<open>
  \<^verbatim>\<open>String.prototype.trim\<close> removes white space and line terminators from both ends;
  below 256 these are TAB, LF, VT, FF, CR, SPACE and NBSP.
\<close>

definition is_space :: "char \<Rightarrow> bool" where
  "is_space c = (of_char c \<in> {9, 10, 11, 12, 13, 32, 160 :: nat})"

definition trim :: "string \<Rightarrow> string" where
  "trim s = rev (dropWhile is_space (rev (dropWhile is_space s)))"

text \<open>\<^verbatim>\<open>s.split(c)\<close> for a one-character separator: always at least one piece.\<close>

fun split :: "char \<Rightarrow> string \<Rightarrow> string list" where
  "split c [] = [[]]"
| "split c (x # xs) =
     (if x = c then [] # split c xs
      else (case split c xs of
              [] \<Rightarrow> [[x]]
            | w # ws \<Rightarrow> (x # w) # ws))"

text \<open>\<^verbatim>\<open>xs.join(sep)\<close>.\<close>

fun join :: "string \<Rightarrow> string list \<Rightarrow> string" where
  "join sep [] = []"
| "join sep [x] = x"
| "join sep (x # y # ys) = x @ sep @ join sep (y # ys)"

section \<open>The data model of the service\<close>

text \<open>
  \<^verbatim>\<open>interface ImportEntry { type: string; title: string; content: string; url?: string;
  metadata?: Record<string, any> }\<close>. The validator tests \<^verbatim>\<open>type\<close>, \<^verbatim>\<open>title\<close> and
  \<^verbatim>\<open>content\<close> for absence, so they are optional here; \<^verbatim>\<open>metadata\<close> is whatever
  \<^verbatim>\<open>JSON.parse\<close> gave, \<^const>\<open>JUndefined\<close> when absent.
\<close>

record ImportEntry =
  type :: "string option"
  title :: "string option"
  content :: "string option"
  url :: "string option"
  metadata :: jsval

record RowError =
  rowIndex :: nat
  rowError :: string

record ImportResult =
  success :: bool
  totalRows :: nat
  importedRows :: nat
  skippedRows :: nat
  errors :: "RowError list"

record ValidationError =
  index :: nat
  error :: string

section \<open>Parsing delimited text\<close>

text \<open>
  A row object \<^verbatim>\<open>Record<string, string>\<close>: its properties in insertion order.
  \<^verbatim>\<open>row[k] = v\<close> overwrites a property in place or appends it; \<^verbatim>\<open>row.k\<close> reads it.
  The service reads only \<^verbatim>\<open>type\<close>, \<^verbatim>\<open>title\<close>, \<^verbatim>\<open>content\<close>, \<^verbatim>\<open>url\<close> and
  \<^verbatim>\<open>metadata\<close>, which no prototype supplies; a header \<^verbatim>\<open>__proto__\<close>, whose assignment
  creates no property in JavaScript, is kept here as a pair that nothing reads.
\<close>

type_synonym row = "(string \<times> string) list"

fun setField :: "string \<Rightarrow> string \<Rightarrow> row \<Rightarrow> row" where
  "setField k v [] = [(k, v)]"
| "setField k v (p # r) = (if fst p = k then (k, v) # r else p # setField k v r)"

definition field :: "row \<Rightarrow> string \<Rightarrow> string option" where
  "field r k = map_of r k"

text \<open>\<^verbatim>\<open>values[j] || ''\<close>: the empty string when the line has no field \<open>j\<close>.\<close>

definition cell :: "string list \<Rightarrow> nat \<Rightarrow> string" where
  "cell vals j = (if j < length vals then vals ! j else [])"

text \<open>
  The inner loop \<^verbatim>\<open>for (j = 0; j < headers.length; j++) row[headers[j]] = values[j] || ''\<close>,
  started at column \<open>j\<close> with the headers still to assign. A repeated header overwrites.
\<close>

fun fillRow :: "string list \<Rightarrow> string list \<Rightarrow> nat \<Rightarrow> row \<Rightarrow> row" where
  "fillRow [] vals j r = r"
| "fillRow (h # hs) vals j r = fillRow hs vals (Suc j) (setField h (cell vals j) r)"

definition parseCSV :: "string \<Rightarrow> exn + row list" where
  "parseCSV text =
     (let lines = filter (\<lambda>line. trim line \<noteq> []) (split (CHR 0x0A) text) in
      if length lines < 2
      then Inl (Error ''CSV must have at least a header row and one data row'')
      else
        (let headers = map trim (split (CHR '','') (hd lines)) in
         Inr (map (\<lambda>line. fillRow headers (map trim (split (CHR '','') line)) 0 [])
                (tl lines))))"

section \<open>The platform and the storage collaborator\<close>

text \<open>
  \<^verbatim>\<open>JSON.parse\<close> and \<^verbatim>\<open>JSON.stringify\<close> belong to the runtime, not to the repository:
  the service takes them as parameters. \<^verbatim>\<open>JSON.parse\<close> returns a value or throws;
  \<^verbatim>\<open>JSON.stringify(v, null, n)\<close> is \<open>JSON_stringify n v\<close>, and \<^verbatim>\<open>JSON.stringify(v)\<close> is
  \<open>JSON_stringify 0 v\<close>.
\<close>

record platform =
  JSON_parse :: "string \<Rightarrow> exn + jsval"
  JSON_stringify :: "nat \<Rightarrow> jsval \<Rightarrow> string"

text \<open>
  Modelled from the spec: the table \<^verbatim>\<open>knowledgeEntries\<close> (\<^verbatim>\<open>drizzle/schema\<close>) is not among the
  sources. A stored entry carries the owner, type, title, content, an optional url and
  optional metadata kept as JSON text; an absent column reads as \<^verbatim>\<open>null\<close>.
\<close>

record KnowledgeEntry =
  k_userId :: int
  k_type :: string
  k_title :: string
  k_content :: string
  k_url :: "string option"
  k_metadata :: "string option"

text \<open>The object handed to \<^verbatim>\<open>db.insert(knowledgeEntries).values(...)\<close>.\<close>

record NewKnowledgeEntry =
  n_userId :: int
  n_type :: "string option"
  n_title :: "string option"
  n_content :: "string option"
  n_url :: "string option"
  n_metadata :: "string option"

text \<open>
  The database behind \<^verbatim>\<open>db\<close> is any state \<open>'s\<close> with an insert that may throw and a
  select of the whole table that may throw. The module-level \<^verbatim>\<open>db\<close> itself may be
  absent (\<^verbatim>\<open>if (!db)\<close>): it is an \<open>'s option\<close>.
\<close>

record 's storage =
  db_insert :: "'s \<Rightarrow> NewKnowledgeEntry \<Rightarrow> exn option \<times> 's"
  db_select :: "'s \<Rightarrow> exn + KnowledgeEntry list"

section \<open>Parsing structured text and mapping rows to entries\<close>

text \<open>
  \<^verbatim>\<open>parseJSON\<close>: the inner \<^verbatim>\<open>throw\<close> for a non-array is caught by the function's own
  \<^verbatim>\<open>catch\<close> and rethrown with the prefix, like a syntax error.
\<close>

definition parseJSON :: "platform \<Rightarrow> string \<Rightarrow> exn + jsval list" where
  "parseJSON P text =
     (case (case JSON_parse P text of
              Inl e \<Rightarrow> Inl e
            | Inr (JArr xs) \<Rightarrow> Inr xs
            | Inr _ \<Rightarrow> Inl (Error ''JSON must be an array of entries'')) of
        Inl e \<Rightarrow> Inl (Error (''Invalid JSON: '' @ message_of e))
      | Inr xs \<Rightarrow> Inr xs)"

text \<open>
  \<^verbatim>\<open>parseJSON\<close> returns the array under the type \<^verbatim>\<open>ImportEntry[]\<close> unchecked. The
  model reads an element as an \<^typ>\<open>ImportEntry\<close> when it is an object whose \<^verbatim>\<open>type\<close>,
  \<^verbatim>\<open>title\<close>, \<^verbatim>\<open>content\<close> and \<^verbatim>\<open>url\<close> are strings, \<^verbatim>\<open>null\<close> or missing (a repeated
  key reads as its last occurrence); any other element is outside the declared type and
  outside the model (\<^const>\<open>None\<close>).
\<close>

definition getProp :: "(string \<times> jsval) list \<Rightarrow> string \<Rightarrow> jsval" where
  "getProp kvs k = (case map_of (rev kvs) k of None \<Rightarrow> JUndefined | Some v \<Rightarrow> v)"

fun asText :: "jsval \<Rightarrow> string option option" where
  "asText JUndefined = Some None"
| "asText JNull = Some None"
| "asText (JStr s) = Some (Some s)"
| "asText _ = None"

fun asImportEntry :: "jsval \<Rightarrow> ImportEntry option" where
  "asImportEntry (JObj kvs) =
     (case (asText (getProp kvs ''type''), asText (getProp kvs ''title''),
            asText (getProp kvs ''content''), asText (getProp kvs ''url'')) of
        (Some ty, Some ti, Some co, Some u) \<Rightarrow>
          Some \<lparr>type = ty, title = ti, content = co, url = u,
                 metadata = getProp kvs ''metadata''\<rparr>
      | _ \<Rightarrow> None)"
| "asImportEntry _ = None"

fun asImportEntries :: "jsval list \<Rightarrow> ImportEntry list option" where
  "asImportEntries [] = Some []"
| "asImportEntries (x # xs) =
     (case asImportEntry x of
        None \<Rightarrow> None
      | Some e \<Rightarrow> (case asImportEntries xs of None \<Rightarrow> None | Some es \<Rightarrow> Some (e # es)))"

text \<open>
  \<^verbatim>\<open>csvToEntries\<close> maps each row; \<^verbatim>\<open>JSON.parse(row.metadata)\<close> is not guarded, so the
  first row whose metadata does not parse throws out of the whole \<^verbatim>\<open>map\<close>.
\<close>

definition rowToEntry :: "platform \<Rightarrow> row \<Rightarrow> exn + ImportEntry" where
  "rowToEntry P r =
     (case (if falsy (field r ''metadata'') then Inr JUndefined
            else JSON_parse P (or_else (field r ''metadata'') [])) of
        Inl e \<Rightarrow> Inl e
      | Inr md \<Rightarrow>
          Inr \<lparr>type = Some (or_else (field r ''type'') ''website''),
                title = Some (or_else (field r ''title'') []),
                content = Some (or_else (field r ''content'') []),
                url = field r ''url'',
                metadata = md\<rparr>)"

fun csvToEntries :: "platform \<Rightarrow> row list \<Rightarrow> exn + ImportEntry list" where
  "csvToEntries P [] = Inr []"
| "csvToEntries P (r # rs) =
     (case rowToEntry P r of
        Inl e \<Rightarrow> Inl e
      | Inr entry \<Rightarrow>
          (case csvToEntries P rs of Inl e \<Rightarrow> Inl e | Inr es \<Rightarrow> Inr (entry # es)))"

section \<open>Validation\<close>

definition validTypes :: "string list" where
  "validTypes = [''website'', ''book'', ''music'', ''artist'', ''feature'', ''blog'']"

text \<open>The body of the validation loop for the entry at index \<open>i\<close>: four independent tests.\<close>

definition checkType :: "nat \<Rightarrow> ImportEntry \<Rightarrow> ValidationError list" where
  "checkType i entry =
     (if falsy (type entry) then [\<lparr>index = i, error = ''Missing type field''\<rparr>]
      else if or_else (type entry) [] \<notin> set validTypes
      then [\<lparr>index = i,
             error = ''Invalid type: '' @ or_else (type entry) [] @ ''. Must be one of: ''
                     @ join '', '' validTypes\<rparr>]
      else [])"

definition checkTitle :: "nat \<Rightarrow> ImportEntry \<Rightarrow> ValidationError list" where
  "checkTitle i entry =
     (if falsy (title entry) \<or> trim (or_else (title entry) []) = []
      then [\<lparr>index = i, error = ''Missing or empty title''\<rparr>] else [])"

definition checkContent :: "nat \<Rightarrow> ImportEntry \<Rightarrow> ValidationError list" where
  "checkContent i entry =
     (if falsy (content entry) \<or> trim (or_else (content entry) []) = []
      then [\<lparr>index = i, error = ''Missing or empty content''\<rparr>] else [])"

definition checkLength :: "nat \<Rightarrow> ImportEntry \<Rightarrow> ValidationError list" where
  "checkLength i entry =
     (if \<not> falsy (title entry) \<and> length (or_else (title entry) []) > 255
      then [\<lparr>index = i, error = ''Title too long (max 255 characters)''\<rparr>] else [])"

fun validateFrom :: "nat \<Rightarrow> ImportEntry list \<Rightarrow> ValidationError list" where
  "validateFrom i [] = []"
| "validateFrom i (entry # rest) =
     checkType i entry @ checkTitle i entry @ checkContent i entry @ checkLength i entry
     @ validateFrom (Suc i) rest"

definition validateEntries :: "ImportEntry list \<Rightarrow> ValidationError list" where
  "validateEntries entries = validateFrom 0 entries"

section \<open>The import orchestrator\<close>

text \<open>The values inserted for an entry owned by \<open>userId\<close>.\<close>

definition newRow :: "platform \<Rightarrow> int \<Rightarrow> ImportEntry \<Rightarrow> NewKnowledgeEntry" where
  "newRow P userId entry =
     \<lparr>n_userId = userId, n_type = type entry, n_title = title entry,
      n_content = content entry, n_url = url entry,
      n_metadata = (if truthy (metadata entry)
                    then Some (JSON_stringify P 0 (metadata entry)) else None)\<rparr>"

text \<open>
  The row loop, at index \<open>i\<close> with the entries still to visit, threading the result under
  construction and the database.
\<close>

fun importLoop ::
  "platform \<Rightarrow> 's storage \<Rightarrow> int \<Rightarrow> nat list \<Rightarrow> nat \<Rightarrow> ImportEntry list
     \<Rightarrow> ImportResult \<times> 's \<Rightarrow> ImportResult \<times> 's" where
  "importLoop P S userId validIndices i [] (result, d) = (result, d)"
| "importLoop P S userId validIndices i (entry # rest) (result, d) =
     (if i \<notin> set validIndices
      then importLoop P S userId validIndices (Suc i) rest
             (result\<lparr>skippedRows := skippedRows result + 1\<rparr>, d)
      else
        (case db_insert S d (newRow P userId entry) of
           (None, d') \<Rightarrow>
             importLoop P S userId validIndices (Suc i) rest
               (result\<lparr>importedRows := importedRows result + 1\<rparr>, d')
         | (Some e, d') \<Rightarrow>
             importLoop P S userId validIndices (Suc i) rest
               (result\<lparr>errors := errors result
                          @ [\<lparr>rowIndex = i,
                               rowError = ''Database insert failed: '' @ message_of e\<rparr>],
                       skippedRows := skippedRows result + 1\<rparr>, d')))"

definition importEntries ::
  "platform \<Rightarrow> 's storage \<Rightarrow> 's option \<Rightarrow> int \<Rightarrow> ImportEntry list
     \<Rightarrow> ImportResult \<times> 's option" where
  "importEntries P S db userId entries =
     (let validationErrors = validateEntries entries;
          result = \<lparr>success = True, totalRows = length entries, importedRows = 0,
                    skippedRows = 0,
                    errors = map (\<lambda>e. \<lparr>rowIndex = index e, rowError = error e\<rparr>)
                               validationErrors\<rparr>;
          validIndices = filter (\<lambda>i. \<not> list_ex (\<lambda>e. index e = i) validationErrors)
                           [0..<length entries]
      in case db of
           None \<Rightarrow>
             (\<lparr>success = False, totalRows = length entries, importedRows = 0,
               skippedRows = length entries,
               errors = [\<lparr>rowIndex = 0, rowError = ''Database not initialized''\<rparr>]\<rparr>, None)
         | Some d \<Rightarrow>
             (case importLoop P S userId validIndices 0 entries (result, d) of
                (result', d') \<Rightarrow>
                  (result'\<lparr>success := (skippedRows result' = 0)\<rparr>, Some d')))"

text \<open>The result both import entry points return from their \<^verbatim>\<open>catch\<close> block.\<close>

definition failed :: "string \<Rightarrow> exn \<Rightarrow> ImportResult" where
  "failed what e =
     \<lparr>success = False, totalRows = 0, importedRows = 0, skippedRows = 0,
      errors = [\<lparr>rowIndex = 0, rowError = what @ '' parsing failed: '' @ message_of e\<rparr>]\<rparr>"

definition importFromCSV ::
  "platform \<Rightarrow> 's storage \<Rightarrow> 's option \<Rightarrow> int \<Rightarrow> string \<Rightarrow> ImportResult \<times> 's option" where
  "importFromCSV P S db userId csvContent =
     (case parseCSV csvContent of
        Inl e \<Rightarrow> (failed ''CSV'' e, db)
      | Inr rows \<Rightarrow>
          (case csvToEntries P rows of
             Inl e \<Rightarrow> (failed ''CSV'' e, db)
           | Inr entries \<Rightarrow> importEntries P S db userId entries))"

text \<open>
  \<^verbatim>\<open>importFromJSON\<close>. The result is \<^const>\<open>None\<close> only where the parsed array holds an
  element outside the declared type \<^verbatim>\<open>ImportEntry\<close> (see \<^const>\<open>asImportEntry\<close>).
\<close>

definition importFromJSON ::
  "platform \<Rightarrow> 's storage \<Rightarrow> 's option \<Rightarrow> int \<Rightarrow> string
     \<Rightarrow> (ImportResult \<times> 's option) option" where
  "importFromJSON P S db userId jsonContent =
     (case parseJSON P jsonContent of
        Inl e \<Rightarrow> Some (failed ''JSON'' e, db)
      | Inr data \<Rightarrow>
          (case asImportEntries data of
             None \<Rightarrow> None
           | Some entries \<Rightarrow> Some (importEntries P S db userId entries)))"

section \<open>The export serializer\<close>

text \<open>\<^verbatim>\<open>s.replace(/"/g, '""')\<close>.\<close>

definition doubleQuotes :: "string \<Rightarrow> string" where
  "doubleQuotes s = concat (map (\<lambda>c. if c = CHR 0x22 then [CHR 0x22, CHR 0x22] else [c]) s)"

definition quoted :: "string \<Rightarrow> string" where
  "quoted s = CHR 0x22 # s @ [CHR 0x22]"

text \<open>One line of the delimited export, with its line feed.\<close>

definition csvLine :: "KnowledgeEntry \<Rightarrow> string" where
  "csvLine entry =
     quoted (k_type entry) @ '','' @ quoted (doubleQuotes (k_title entry)) @ '',''
     @ quoted (doubleQuotes (k_content entry)) @ '','' @ quoted (or_else (k_url entry) [])
     @ '','' @ quoted (or_else (k_metadata entry) []) @ [CHR 0x0A]"

text \<open>
  \<^verbatim>\<open>exportAsCSV(userId)\<close>: the query is \<^verbatim>\<open>db.select().from(knowledgeEntries)\<close>, the whole
  table; \<open>userId\<close> is not used. A failing query rejects the call.
\<close>

definition exportAsCSV :: "'s storage \<Rightarrow> 's option \<Rightarrow> int \<Rightarrow> exn + string" where
  "exportAsCSV S db userId =
     (case db of
        None \<Rightarrow> Inr []
      | Some d \<Rightarrow>
          (case db_select S d of
             Inl e \<Rightarrow> Inl e
           | Inr entries \<Rightarrow>
               if entries = [] then Inr []
               else Inr (''type,title,content,url,metadata'' @ [CHR 0x0A]
                         @ concat (map csvLine entries))))"

text \<open>
  The object built for one stored entry by \<^verbatim>\<open>exportAsJSON\<close>;
  \<^verbatim>\<open>JSON.parse(entry.metadata || '{}')\<close> runs only for truthy metadata and may throw.
\<close>

definition exportRecord :: "platform \<Rightarrow> KnowledgeEntry \<Rightarrow> exn + jsval" where
  "exportRecord P entry =
     (case (if \<not> falsy (k_metadata entry)
            then JSON_parse P (or_else (k_metadata entry) ''{}'')
            else Inr JUndefined) of
        Inl e \<Rightarrow> Inl e
      | Inr md \<Rightarrow>
          Inr (JObj [(''type'', JStr (k_type entry)),
                     (''title'', JStr (k_title entry)),
                     (''content'', JStr (k_content entry)),
                     (''url'', (case k_url entry of None \<Rightarrow> JNull | Some u \<Rightarrow> JStr u)),
                     (''metadata'', md)]))"

fun exportData :: "platform \<Rightarrow> KnowledgeEntry list \<Rightarrow> exn + jsval list" where
  "exportData P [] = Inr []"
| "exportData P (entry # rest) =
     (case exportRecord P entry of
        Inl e \<Rightarrow> Inl e
      | Inr r \<Rightarrow> (case exportData P rest of Inl e \<Rightarrow> Inl e | Inr rs \<Rightarrow> Inr (r # rs)))"

definition exportAsJSON :: "platform \<Rightarrow> 's storage \<Rightarrow> 's option \<Rightarrow> int \<Rightarrow> exn + string" where
  "exportAsJSON P S db userId =
     (case db of
        None \<Rightarrow> Inr ''[]''
      | Some d \<Rightarrow>
          (case db_select S d of
             Inl e \<Rightarrow> Inl e
           | Inr entries \<Rightarrow>
               if entries = [] then Inr ''[]''
               else (case exportData P entries of
                       Inl e \<Rightarrow> Inl e
                     | Inr records \<Rightarrow> Inr (JSON_stringify P 2 (JArr records)))))"

section \<open>A reference platform and an in-memory store\<close>

text \<open>
  Concrete instances of the two parameters, for evaluating the service on concrete
  inputs. The reference \<^verbatim>\<open>JSON.parse\<close> reads the JSON grammar with integer numbers and
  code units below 256 (it rejects what the model cannot hold: fractions, exponents,
  higher \<^verbatim>\<open>\u\<close> escapes); the message of its syntax error is fixed, where engines differ.
\<close>

definition isWs :: "char \<Rightarrow> bool" where
  "isWs c = (of_char c \<in> {9, 10, 13, 32 :: nat})"

definition isDigit :: "char \<Rightarrow> bool" where
  "isDigit c = (48 \<le> (of_char c :: nat) \<and> (of_char c :: nat) \<le> 57)"

definition digitVal :: "char \<Rightarrow> nat" where
  "digitVal c = of_char c - 48"

definition hexVal :: "char \<Rightarrow> nat option" where
  "hexVal c =
     (let n = (of_char c :: nat) in
      if 48 \<le> n \<and> n \<le> 57 then Some (n - 48)
      else if 65 \<le> n \<and> n \<le> 70 then Some (n - 55)
      else if 97 \<le> n \<and> n \<le> 102 then Some (n - 87)
      else None)"

text \<open>The characters after a backslash: the decoded character and the rest.\<close>

definition unescape :: "string \<Rightarrow> (char \<times> string) option" where
  "unescape cs =
     (case cs of
        [] \<Rightarrow> None
      | e # r \<Rightarrow>
          if e = CHR 0x22 \<or> e = CHR 0x5C \<or> e = CHR ''/'' then Some (e, r)
          else if e = CHR ''b'' then Some (CHR 0x08, r)
          else if e = CHR ''f'' then Some (CHR 0x0C, r)
          else if e = CHR ''n'' then Some (CHR 0x0A, r)
          else if e = CHR ''r'' then Some (CHR 0x0D, r)
          else if e = CHR ''t'' then Some (CHR 0x09, r)
          else if e = CHR ''u'' then
            (case map hexVal (take 4 r) of
               [Some a, Some b, Some c, Some d] \<Rightarrow>
                 if a = 0 \<and> b = 0 then Some (char_of (16 * c + d), drop 4 r) else None
             | _ \<Rightarrow> None)
          else None)"

text \<open>The characters of a string literal after its opening quote.\<close>

fun parseStr :: "nat \<Rightarrow> string \<Rightarrow> string \<Rightarrow> (string \<times> string) option" where
  "parseStr 0 acc cs = None"
| "parseStr (Suc n) acc [] = None"
| "parseStr (Suc n) acc (c # cs) =
     (if c = CHR 0x22 then Some (rev acc, cs)
      else if c = CHR 0x5C then
        (case unescape cs of
           None \<Rightarrow> None
         | Some (d, r) \<Rightarrow> parseStr n (d # acc) r)
      else if (of_char c :: nat) < 32 then None
      else parseStr n (c # acc) cs)"

definition digitsVal :: "string \<Rightarrow> nat" where
  "digitsVal ds = foldl (\<lambda>n c. 10 * n + digitVal c) 0 ds"

text \<open>A number: an optional minus, then \<open>0\<close> or a digit string without leading zero.\<close>

definition parseNum :: "string \<Rightarrow> (jsval \<times> string) option" where
  "parseNum cs =
     (let neg = (cs \<noteq> [] \<and> hd cs = CHR ''-'');
          body = (if neg then tl cs else cs);
          ds = takeWhile isDigit body;
          r = dropWhile isDigit body
      in if ds = [] \<or> (length ds > 1 \<and> hd ds = CHR ''0'') then None
         else if r \<noteq> [] \<and> (hd r = CHR ''.'' \<or> hd r = CHR ''e'' \<or> hd r = CHR ''E'') then None
         else Some (JNum (if neg then - int (digitsVal ds) else int (digitsVal ds)), r))"

fun parseValue :: "nat \<Rightarrow> string \<Rightarrow> (jsval \<times> string) option"
  and parseElems :: "nat \<Rightarrow> jsval list \<Rightarrow> string \<Rightarrow> (jsval list \<times> string) option"
  and parseMembers ::
    "nat \<Rightarrow> (string \<times> jsval) list \<Rightarrow> string \<Rightarrow> ((string \<times> jsval) list \<times> string) option"
where
  "parseValue 0 cs = None"
| "parseValue (Suc n) cs =
     (case dropWhile isWs cs of
        [] \<Rightarrow> None
      | c # r \<Rightarrow>
          if c = CHR ''['' then
            (case dropWhile isWs r of
               [] \<Rightarrow> None
             | c' # r' \<Rightarrow>
                 if c' = CHR '']'' then Some (JArr [], r')
                 else (case parseElems n [] (c' # r') of
                         None \<Rightarrow> None
                       | Some (xs, r'') \<Rightarrow> Some (JArr xs, r'')))
          else if c = CHR ''{'' then
            (case dropWhile isWs r of
               [] \<Rightarrow> None
             | c' # r' \<Rightarrow>
                 if c' = CHR ''}'' then Some (JObj [], r')
                 else (case parseMembers n [] (c' # r') of
                         None \<Rightarrow> None
                       | Some (kvs, r'') \<Rightarrow> Some (JObj kvs, r'')))
          else if c = CHR 0x22 then
            (case parseStr (length r) [] r of
               None \<Rightarrow> None
             | Some (s, r') \<Rightarrow> Some (JStr s, r'))
          else if take 4 (c # r) = ''null'' then Some (JNull, drop 3 r)
          else if take 4 (c # r) = ''true'' then Some (JBool True, drop 3 r)
          else if take 5 (c # r) = ''false'' then Some (JBool False, drop 4 r)
          else parseNum (c # r))"
| "parseElems 0 acc cs = None"
| "parseElems (Suc n) acc cs =
     (case parseValue n cs of
        None \<Rightarrow> None
      | Some (v, r) \<Rightarrow>
          (case dropWhile isWs r of
             [] \<Rightarrow> None
           | c # r' \<Rightarrow>
               if c = CHR '','' then parseElems n (acc @ [v]) r'
               else if c = CHR '']'' then Some (acc @ [v], r')
               else None))"
| "parseMembers 0 acc cs = None"
| "parseMembers (Suc n) acc cs =
     (case dropWhile isWs cs of
        [] \<Rightarrow> None
      | q # r \<Rightarrow>
          if q \<noteq> CHR 0x22 then None
          else
            (case parseStr (length r) [] r of
               None \<Rightarrow> None
             | Some (k, r1) \<Rightarrow>
                 (case dropWhile isWs r1 of
                    [] \<Rightarrow> None
                  | c # r2 \<Rightarrow>
                      if c \<noteq> CHR '':'' then None
                      else
                        (case parseValue n r2 of
                           None \<Rightarrow> None
                         | Some (v, r3) \<Rightarrow>
                             (case dropWhile isWs r3 of
                                [] \<Rightarrow> None
                              | c' # r4 \<Rightarrow>
                                  if c' = CHR '','' then parseMembers n (acc @ [(k, v)]) r4
                                  else if c' = CHR ''}'' then Some (acc @ [(k, v)], r4)
                                  else None)))))"

text \<open>
  The recursion is bounded by fuel, twice the length of the text and two more; running
  out of fuel reads as a syntax error.
\<close>

definition ref_parse :: "string \<Rightarrow> exn + jsval" where
  "ref_parse text =
     (case parseValue (2 * length text + 2) text of
        None \<Rightarrow> Inl (Error ''Unexpected token in JSON'')
      | Some (v, r) \<Rightarrow>
          if dropWhile isWs r = [] then Inr v else Inl (Error ''Unexpected token in JSON''))"

text \<open>
  The reference \<^verbatim>\<open>JSON.stringify\<close>: a property whose value is \<^verbatim>\<open>undefined\<close> is left out
  of an object, an \<^verbatim>\<open>undefined\<close> array element is written \<^verbatim>\<open>null\<close>; with a gap, members
  go on lines of their own.
\<close>

definition digitChar :: "nat \<Rightarrow> char" where
  "digitChar d = char_of (48 + d)"

fun showNat :: "nat \<Rightarrow> nat \<Rightarrow> string" where
  "showNat 0 n = [digitChar (n mod 10)]"
| "showNat (Suc k) n =
     (if n < 10 then [digitChar n] else showNat k (n div 10) @ [digitChar (n mod 10)])"

definition showInt :: "int \<Rightarrow> string" where
  "showInt i = (if i < 0 then CHR ''-'' # showNat (nat (- i)) (nat (- i))
                else showNat (nat i) (nat i))"

definition hexChar :: "nat \<Rightarrow> char" where
  "hexChar d = (if d < 10 then char_of (48 + d) else char_of (87 + d))"

definition escapeChar :: "char \<Rightarrow> string" where
  "escapeChar c =
     (if c = CHR 0x22 then [CHR 0x5C, CHR 0x22]
      else if c = CHR 0x5C then [CHR 0x5C, CHR 0x5C]
      else if c = CHR 0x08 then [CHR 0x5C, CHR ''b'']
      else if c = CHR 0x0C then [CHR 0x5C, CHR ''f'']
      else if c = CHR 0x0A then [CHR 0x5C, CHR ''n'']
      else if c = CHR 0x0D then [CHR 0x5C, CHR ''r'']
      else if c = CHR 0x09 then [CHR 0x5C, CHR ''t'']
      else if (of_char c :: nat) < 32
      then [CHR 0x5C, CHR ''u'', CHR ''0'', CHR ''0'',
            hexChar (of_char c div 16), hexChar (of_char c mod 16)]
      else [c])"

definition quoteJSON :: "string \<Rightarrow> string" where
  "quoteJSON s = quoted (concat (map escapeChar s))"

definition wrap :: "string \<Rightarrow> string \<Rightarrow> string \<Rightarrow> string \<Rightarrow> string list \<Rightarrow> string" where
  "wrap opening closing gap indent parts =
     (if parts = [] then opening @ closing
      else if gap = [] then opening @ join '','' parts @ closing
      else opening @ [CHR 0x0A] @ indent @ gap
           @ join ('','' @ [CHR 0x0A] @ indent @ gap) parts
           @ [CHR 0x0A] @ indent @ closing)"

fun serialize :: "string \<Rightarrow> string \<Rightarrow> jsval \<Rightarrow> string" where
  "serialize gap indent JUndefined = ''null''"
| "serialize gap indent JNull = ''null''"
| "serialize gap indent (JBool b) = (if b then ''true'' else ''false'')"
| "serialize gap indent (JNum n) = showInt n"
| "serialize gap indent (JStr s) = quoteJSON s"
| "serialize gap indent (JArr xs) =
     wrap ''['' '']'' gap indent (map (serialize gap (indent @ gap)) xs)"
| "serialize gap indent (JObj kvs) =
     wrap ''{'' ''}'' gap indent
       (map (\<lambda>kv. quoteJSON (fst kv) @ '':'' @ (if gap = [] then [] else '' '')
                   @ serialize gap (indent @ gap) (snd kv))
          (filter (\<lambda>kv. snd kv \<noteq> JUndefined) kvs))"

definition ref_stringify :: "nat \<Rightarrow> jsval \<Rightarrow> string" where
  "ref_stringify n v = serialize (replicate n (CHR '' '')) [] v"

definition node :: platform where
  "node = \<lparr>JSON_parse = ref_parse, JSON_stringify = ref_stringify\<rparr>"

text \<open>
  An in-memory table with a capacity. An insert throws when a required column is missing
  or the table is full, and appends the row otherwise; a select returns the whole table.
\<close>

record memdb =
  table :: "KnowledgeEntry list"
  capacity :: nat

definition mem_insert :: "memdb \<Rightarrow> NewKnowledgeEntry \<Rightarrow> exn option \<times> memdb" where
  "mem_insert d v =
     (case (n_type v, n_title v, n_content v) of
        (Some ty, Some ti, Some co) \<Rightarrow>
          if length (table d) < capacity d
          then (None, d\<lparr>table := table d
                  @ [\<lparr>k_userId = n_userId v, k_type = ty, k_title = ti, k_content = co,
                       k_url = n_url v, k_metadata = n_metadata v\<rparr>]\<rparr>)
          else (Some (Error ''table is full''), d)
      | _ \<Rightarrow> (Some (Error ''Column cannot be null''), d))"

definition memory :: "memdb storage" where
  "memory = \<lparr>db_insert = mem_insert, db_select = (\<lambda>d. Inr (table d))\<rparr>"

section \<open>The validation rules as the specification lists them\<close>

text \<open>
  The five rules of the entry validator in the specification's words and order: type
  missing; type present but not in the closed set; title missing or empty after trimming;
  content missing or empty after trimming; title longer than 255 characters. A field is
  missing when it is absent or holds the empty text.
\<close>

datatype rule = TypeMissing | TypeInvalid | TitleEmpty | ContentEmpty | TitleTooLong

definition rules :: "rule list" where
  "rules = [TypeMissing, TypeInvalid, TitleEmpty, ContentEmpty, TitleTooLong]"

definition text_of :: "string option \<Rightarrow> string" where
  "text_of x = (case x of None \<Rightarrow> [] | Some s \<Rightarrow> s)"

fun violates :: "rule \<Rightarrow> ImportEntry \<Rightarrow> bool" where
  "violates TypeMissing e = (text_of (type e) = [])"
| "violates TypeInvalid e = (text_of (type e) \<noteq> [] \<and> text_of (type e) \<notin> set validTypes)"
| "violates TitleEmpty e = (trim (text_of (title e)) = [])"
| "violates ContentEmpty e = (trim (text_of (content e)) = [])"
| "violates TitleTooLong e = (length (text_of (title e)) > 255)"

fun message :: "rule \<Rightarrow> ImportEntry \<Rightarrow> string" where
  "message TypeMissing e = ''Missing type field''"
| "message TypeInvalid e =
     ''Invalid type: '' @ text_of (type e)
     @ ''. Must be one of: website, book, music, artist, feature, blog''"
| "message TitleEmpty e = ''Missing or empty title''"
| "message ContentEmpty e = ''Missing or empty content''"
| "message TitleTooLong e = ''Title too long (max 255 characters)''"

definition violated :: "ImportEntry \<Rightarrow> rule list" where
  "violated e = filter (\<lambda>r. violates r e) rules"

definition violations :: "nat \<Rightarrow> ImportEntry \<Rightarrow> ValidationError list" where
  "violations i e = map (\<lambda>r. \<lparr>index = i, error = message r e\<rparr>) (violated e)"

section \<open>Fields that survive the delimited format\<close>

text \<open>A text without comma and without line feed; an entry all of whose exported fields are so.\<close>

definition plainText :: "string \<Rightarrow> bool" where
  "plainText s = (CHR '','' \<notin> set s \<and> CHR 0x0A \<notin> set s)"

definition plainEntry :: "KnowledgeEntry \<Rightarrow> bool" where
  "plainEntry e =
     (plainText (k_type e) \<and> plainText (k_title e) \<and> plainText (k_content e)
      \<and> plainText (or_else (k_url e) []) \<and> plainText (or_else (k_metadata e) [])
      \<and> CHR 0x22 \<notin> set (k_title e) \<and> CHR 0x22 \<notin> set (k_content e))"

text \<open>The row that \<^verbatim>\<open>parseCSV\<close> reads back from the exported line of a stored entry.\<close>

definition quotedRow :: "KnowledgeEntry \<Rightarrow> row" where
  "quotedRow e =
     [(''type'', quoted (k_type e)), (''title'', quoted (k_title e)),
      (''content'', quoted (k_content e)), (''url'', quoted (or_else (k_url e) [])),
      (''metadata'', quoted (or_else (k_metadata e) []))]"

text \<open>An exported line without its line feed.\<close>

definition csvBody :: "KnowledgeEntry \<Rightarrow> string" where
  "csvBody e = quoted (k_type e) @ '','' @ quoted (doubleQuotes (k_title e)) @ '',''
     @ quoted (doubleQuotes (k_content e)) @ '','' @ quoted (or_else (k_url e) [])
     @ '','' @ quoted (or_else (k_metadata e) [])"



section \<open>Basic facts\<close>

lemma trim_Nil: "trim [] = []"
  by (simp add: trim_def)

section \<open>Row accounting of the import operations\<close>

lemma importLoop_counts:
  "importLoop P S u vi i es (res, d) = (res', d') \<Longrightarrow>
     importedRows res' + skippedRows res' = importedRows res + skippedRows res + length es
     \<and> totalRows res' = totalRows res"
proof (induction es arbitrary: i res d)
  case Nil
  then show ?case by simp
next
  case (Cons e es)
  show ?case
  proof (cases "i \<in> set vi")
    case False
    with Cons.prems
    have "importLoop P S u vi (Suc i) es (res\<lparr>skippedRows := skippedRows res + 1\<rparr>, d)
            = (res', d')"
      by simp
    from Cons.IH [OF this] show ?thesis by simp
  next
    case True
    obtain x d1 where ins: "db_insert S d (newRow P u e) = (x, d1)"
      by (cases "db_insert S d (newRow P u e)")
    show ?thesis
    proof (cases x)
      case None
      with Cons.prems True ins
      have "importLoop P S u vi (Suc i) es
              (res\<lparr>importedRows := importedRows res + 1\<rparr>, d1) = (res', d')"
        by simp
      from Cons.IH [OF this] show ?thesis by simp
    next
      case (Some ex)
      with Cons.prems True ins
      have "importLoop P S u vi (Suc i) es
              (res\<lparr>errors := errors res
                      @ [\<lparr>rowIndex = i,
                           rowError = ''Database insert failed: '' @ message_of ex\<rparr>],
                   skippedRows := skippedRows res + 1\<rparr>, d1) = (res', d')"
        by simp
      from Cons.IH [OF this] show ?thesis by simp
    qed
  qed
qed

lemma importEntries_unavailable:
  "importEntries P S None u es =
     (\<lparr>success = False, totalRows = length es, importedRows = 0, skippedRows = length es,
       errors = [\<lparr>rowIndex = 0, rowError = ''Database not initialized''\<rparr>]\<rparr>, None)"
  by (simp add: importEntries_def Let_def)




lemma failed_simps:
  "success (failed w e) = False" "totalRows (failed w e) = 0"
  "importedRows (failed w e) = 0" "skippedRows (failed w e) = 0"
  "errors (failed w e) = [\<lparr>rowIndex = 0, rowError = w @ '' parsing failed: '' @ message_of e\<rparr>]"
  by (simp_all add: failed_def)





lemma parseCSV_too_few:
  "length (filter (\<lambda>line. trim line \<noteq> []) (split (CHR 0x0A) inp)) < 2 \<Longrightarrow>
   parseCSV inp = Inl (Error ''CSV must have at least a header row and one data row'')"
  by (simp add: parseCSV_def Let_def)

lemma parseCSV_rows:
  "parseCSV inp = Inr rows \<Longrightarrow>
     length rows = length (filter (\<lambda>line. trim line \<noteq> []) (split (CHR 0x0A) inp)) - 1
     \<and> rows \<noteq> []"
proof -
  assume a: "parseCSV inp = Inr rows"
  let ?ls = "filter (\<lambda>line. trim line \<noteq> []) (split (CHR 0x0A) inp)"
  from a have l: "\<not> length ?ls < 2" by (auto simp: parseCSV_def Let_def split: if_splits)
  with a have "length rows = length (tl ?ls)" by (auto simp: parseCSV_def Let_def)
  with l show ?thesis by auto
qed

lemma csvToEntries_length:
  "csvToEntries P rows = Inr es \<Longrightarrow> length es = length rows"
  by (induction rows arbitrary: es) (auto split: sum.splits)

lemma importEntries_total: "totalRows (fst (importEntries P S db u es)) = length es"
proof (cases db)
  case None
  then show ?thesis by (simp add: importEntries_unavailable)
next
  case (Some d)
  let ?res0 = "\<lparr>success = True, totalRows = length es, importedRows = 0, skippedRows = 0,
                 errors = map (\<lambda>e. \<lparr>rowIndex = index e, rowError = error e\<rparr>)
                            (validateEntries es)\<rparr>"
  let ?vi = "filter (\<lambda>i. \<not> list_ex (\<lambda>e. index e = i) (validateEntries es)) [0..<length es]"
  obtain r d' where loop: "importLoop P S u ?vi 0 es (?res0, d) = (r, d')"
    by (cases "importLoop P S u ?vi 0 es (?res0, d)")
  from importLoop_counts [OF loop] have "totalRows r = length es"
    by simp
  with Some loop show ?thesis by (simp add: importEntries_def Let_def)
qed

lemma importFromCSV_too_few:
  assumes "length (filter (\<lambda>line. trim line \<noteq> []) (split (CHR 0x0A) inp)) < 2"
  shows "importFromCSV P S db u inp =
     (\<lparr>success = False, totalRows = 0, importedRows = 0, skippedRows = 0,
       errors = [\<lparr>rowIndex = 0,
                  rowError = ''CSV parsing failed: CSV must have at least a header row and one data row''\<rparr>]\<rparr>,
      db)"
  using parseCSV_too_few [OF assms] by (simp add: importFromCSV_def failed_def)

lemma importFromCSV_never_empty_success:
  "totalRows (fst (importFromCSV P S db u inp)) = 0 \<Longrightarrow>
   \<not> success (fst (importFromCSV P S db u inp))"
proof (cases "parseCSV inp")
  case (Inl e)
  then show ?thesis by (simp add: importFromCSV_def failed_simps)
next
  case (Inr rows)
  note rows = this
  show "totalRows (fst (importFromCSV P S db u inp)) = 0 \<Longrightarrow> ?thesis"
  proof (cases "csvToEntries P rows")
    case (Inl e)
    with rows show ?thesis by (simp add: importFromCSV_def failed_simps)
  next
    case (Inr es)
    assume t: "totalRows (fst (importFromCSV P S db u inp)) = 0"
    from rows Inr have "importFromCSV P S db u inp = importEntries P S db u es"
      by (simp add: importFromCSV_def)
    with t have "length es = 0" by (simp add: importEntries_total)
    with csvToEntries_length [OF Inr] parseCSV_rows [OF rows] show ?thesis by simp
  qed
qed

lemma importFromJSON_empty:
  assumes "JSON_parse P ''[]'' = Inr (JArr [])"
  shows "importFromJSON P S (Some d) u ''[]'' =
     Some (\<lparr>success = True, totalRows = 0, importedRows = 0, skippedRows = 0, errors = []\<rparr>,
           Some d)"
  using assms
  by (simp add: importFromJSON_def parseJSON_def importEntries_def validateEntries_def)


text \<open>
  C5. With the storage unavailable, \<^verbatim>\<open>importEntries\<close> on \<open>N\<close> entries returns
  \<open>success = False\<close>, \<open>totalRows = N\<close>, \<open>importedRows = 0\<close>, \<open>skippedRows = N\<close> and the single
  error \<open>(0, Database not initialized)\<close>; nothing is persisted (the storage stays absent,
  whatever its insert would do). It holds for every \<open>N\<close>, so for every \<open>N > 0\<close>.
\<close>

theorem storage_unavailable:
  "importEntries P S None u es =
     (\<lparr>success = False, totalRows = length es, importedRows = 0, skippedRows = length es,
       errors = [\<lparr>rowIndex = 0, rowError = ''Database not initialized''\<rparr>]\<rparr>, None)"
  by (rule importEntries_unavailable)

theorem storage_unavailable_witness:
  "importEntries node memory None 7
     [\<lparr>type = Some ''music'', title = Some ''Track 1'', content = Some ''My song'',
       url = None, metadata = JUndefined\<rparr>,
      \<lparr>type = Some ''bogus'', title = None, content = Some ''x'',
       url = None, metadata = JUndefined\<rparr>]
   = (\<lparr>success = False, totalRows = 2, importedRows = 0, skippedRows = 2,
       errors = [\<lparr>rowIndex = 0, rowError = ''Database not initialized''\<rparr>]\<rparr>, None)"
  using storage_unavailable [of node memory 7
     "[\<lparr>type = Some ''music'', title = Some ''Track 1'', content = Some ''My song'',
        url = None, metadata = JUndefined\<rparr>,
       \<lparr>type = Some ''bogus'', title = None, content = Some ''x'',
        url = None, metadata = JUndefined\<rparr>]"]
  by simp

text \<open>
  C7. A delimited input with fewer than two non-blank lines makes \<^verbatim>\<open>importFromCSV\<close>
  return (it is a total function: nothing is raised) the degenerate result with
  \<open>totalRows = 0\<close>, \<open>importedRows = 0\<close> and exactly one error, at row index 0; the storage
  is untouched.
\<close>

theorem too_few_lines:
  assumes "length (filter (\<lambda>line. trim line \<noteq> []) (split (CHR 0x0A) inp)) < 2"
  shows "importFromCSV P S db u inp =
     (\<lparr>success = False, totalRows = 0, importedRows = 0, skippedRows = 0,
       errors = [\<lparr>rowIndex = 0,
                  rowError = ''CSV parsing failed: CSV must have at least a header row and one data row''\<rparr>]\<rparr>,
      db)"
  using assms by (rule importFromCSV_too_few)

theorem too_few_lines_witness:
  "length (filter (\<lambda>line. trim line \<noteq> []) (split (CHR 0x0A) ''type,title,content\<newline>  \<newline>'')) < 2
   \<and> importFromCSV node memory (Some \<lparr>table = [], capacity = 1\<rparr>) 7
         ''type,title,content\<newline>  \<newline>'' =
     (\<lparr>success = False, totalRows = 0, importedRows = 0, skippedRows = 0,
       errors = [\<lparr>rowIndex = 0,
                  rowError = ''CSV parsing failed: CSV must have at least a header row and one data row''\<rparr>]\<rparr>,
      Some \<lparr>table = [], capacity = 1\<rparr>)"
proof -
  have h: "length (filter (\<lambda>line. trim line \<noteq> [])
             (split (CHR 0x0A) ''type,title,content\<newline>  \<newline>'')) < 2"
    by code_simp
  from h too_few_lines [OF h, of node memory "Some \<lparr>table = [], capacity = 1\<rparr>" 7]
  show ?thesis by (rule conjI)
qed

text \<open>
  C10. With the storage available, \<^verbatim>\<open>importFromJSON\<close> on the text \<open>[]\<close> (which
  \<^verbatim>\<open>JSON.parse\<close> reads as the empty array) returns the successful empty result, whereas
  \<^verbatim>\<open>importFromCSV\<close> rejects every input without a data row and never returns a
  successful result of zero rows.
\<close>

theorem empty_batch:
  assumes "JSON_parse P ''[]'' = Inr (JArr [])"
  shows "importFromJSON P S (Some d) u ''[]'' =
           Some (\<lparr>success = True, totalRows = 0, importedRows = 0, skippedRows = 0,
                   errors = []\<rparr>, Some d)
         \<and> (length (filter (\<lambda>line. trim line \<noteq> []) (split (CHR 0x0A) inp)) < 2
              \<longrightarrow> \<not> success (fst (importFromCSV P S (Some d) u inp))
                  \<and> errors (fst (importFromCSV P S (Some d) u inp)) \<noteq> [])
         \<and> (totalRows (fst (importFromCSV P S (Some d) u inp)) = 0
              \<longrightarrow> \<not> success (fst (importFromCSV P S (Some d) u inp)))"
proof (intro conjI impI)
  show "importFromJSON P S (Some d) u ''[]'' =
           Some (\<lparr>success = True, totalRows = 0, importedRows = 0, skippedRows = 0,
                   errors = []\<rparr>, Some d)"
    using assms by (rule importFromJSON_empty)
next
  assume "length (filter (\<lambda>line. trim line \<noteq> []) (split (CHR 0x0A) inp)) < 2"
  from importFromCSV_too_few [OF this, of P S "Some d" u]
  show "\<not> success (fst (importFromCSV P S (Some d) u inp))"
    and "errors (fst (importFromCSV P S (Some d) u inp)) \<noteq> []"
    by simp_all
next
  assume "totalRows (fst (importFromCSV P S (Some d) u inp)) = 0"
  then show "\<not> success (fst (importFromCSV P S (Some d) u inp))"
    by (rule importFromCSV_never_empty_success)
qed

theorem empty_batch_witness:
  "JSON_parse node ''[]'' = Inr (JArr [])
   \<and> importFromJSON node memory (Some \<lparr>table = [], capacity = 1\<rparr>) 7 ''[]'' =
       Some (\<lparr>success = True, totalRows = 0, importedRows = 0, skippedRows = 0, errors = []\<rparr>,
             Some \<lparr>table = [], capacity = 1\<rparr>)
   \<and> length (filter (\<lambda>line. trim line \<noteq> []) (split (CHR 0x0A) ''type,title,content'')) < 2
   \<and> totalRows (fst (importFromCSV node memory (Some \<lparr>table = [], capacity = 1\<rparr>) 7
                       ''type,title,content'')) = 0
   \<and> \<not> success (fst (importFromCSV node memory (Some \<lparr>table = [], capacity = 1\<rparr>) 7
                        ''type,title,content''))"
proof -
  have p: "JSON_parse node ''[]'' = Inr (JArr [])"
    by code_simp
  have l: "length (filter (\<lambda>line. trim line \<noteq> [])
             (split (CHR 0x0A) ''type,title,content'')) < 2"
    by code_simp
  have t: "totalRows (fst (importFromCSV node memory (Some \<lparr>table = [], capacity = 1\<rparr>) 7
                       ''type,title,content'')) = 0"
    by code_simp
  from empty_batch [OF p, of memory "\<lparr>table = [], capacity = 1\<rparr>" 7 "''type,title,content''"]
    p l t
  show ?thesis by simp
qed




section \<open>Validation reports every violated rule\<close>

lemma text_of_or_else: "or_else x [] = text_of x"
  by (cases x) (simp_all add: text_of_def)

lemma falsy_text_of: "falsy x = (text_of x = [])"
  by (cases x) (simp_all add: text_of_def)

lemma join_validTypes: "join '', '' validTypes = ''website, book, music, artist, feature, blog''"
  by (simp add: validTypes_def)

lemma loop_body:
  "checkType i e @ checkTitle i e @ checkContent i e @ checkLength i e = violations i e"
  by (simp add: checkType_def checkTitle_def checkContent_def checkLength_def violations_def
      violated_def rules_def text_of_or_else falsy_text_of join_validTypes trim_Nil)

lemma validateFrom_eq:
  "validateFrom k es = concat (map (\<lambda>i. violations (k + i) (es ! i)) [0..<length es])"
proof (induction es arbitrary: k)
  case Nil
  show ?case by simp
next
  case (Cons e es)
  have "[0..<length (e # es)] = 0 # map Suc [0..<length es]"
    by (simp add: upt_conv_Cons map_Suc_upt del: upt_Suc)
  then show ?case
    using Cons.IH [of "Suc k"] loop_body [of k e]
    by (simp add: comp_def del: upt_Suc)
qed

lemma violations_index: "v \<in> set (violations i e) \<Longrightarrow> index v = i"
  by (auto simp: violations_def)

lemma filter_concat_index:
  assumes "distinct js"
  shows "filter (\<lambda>v. index v = i) (concat (map (\<lambda>j. violations j (f j)) js))
         = (if i \<in> set js then violations i (f i) else [])"
  using assms
proof (induction js)
  case Nil
  show ?case by simp
next
  case (Cons j js)
  have same: "filter (\<lambda>v. index v = j) (violations j (f j)) = violations j (f j)"
    by (simp add: violations_def comp_def)
  have other: "i \<noteq> j \<Longrightarrow> filter (\<lambda>v. index v = i) (violations j (f j)) = []"
    by (simp add: violations_def comp_def)
  show ?case
  proof (cases "i = j")
    case True
    with Cons show ?thesis by (simp add: same)
  next
    case False
    with Cons show ?thesis by (simp add: other)
  qed
qed

lemma errors_at_index:
  assumes "i < length es"
  shows "filter (\<lambda>v. index v = i) (validateEntries es) = violations i (es ! i)"
  using assms filter_concat_index [of "[0..<length es]" i "\<lambda>j. es ! j"]
  by (simp add: validateEntries_def validateFrom_eq)


lemma rules_all: "set rules = UNIV" "distinct rules"
proof -
  show "set rules = UNIV"
  proof
    show "UNIV \<subseteq> set rules"
    proof
      fix r :: rule
      show "r \<in> set rules" by (cases r) (simp_all add: rules_def)
    qed
  qed simp
  show "distinct rules" by (simp add: rules_def)
qed

lemma violated_card: "length (violated e) = card {r. violates r e}"
  using distinct_length_filter [OF rules_all(2), of "\<lambda>r. violates r e"]
  by (simp add: violated_def rules_all(1))

text \<open>
  C6. \<^verbatim>\<open>validateEntries\<close> returns, entry after entry in input order, one error record
  for each rule the entry violates, tagged with the entry's index in the input. So the
  records with index \<open>i\<close> are exactly those of entry \<open>i\<close>, as many as the rules it violates
  (two for an entry violating exactly two rules), whatever the other entries violate.
\<close>

theorem validation_independence:
  "validateEntries es = concat (map (\<lambda>i. violations i (es ! i)) [0..<length es])
   \<and> (i < length es \<longrightarrow>
        filter (\<lambda>v. index v = i) (validateEntries es) = violations i (es ! i)
        \<and> length (filter (\<lambda>v. index v = i) (validateEntries es)) = card {r. violates r (es ! i)})
   \<and> (i < length es \<and> card {r. violates r (es ! i)} = 2 \<longrightarrow>
        length (filter (\<lambda>v. index v = i) (validateEntries es)) = 2)"
proof (intro conjI impI)
  show "validateEntries es = concat (map (\<lambda>i. violations i (es ! i)) [0..<length es])"
    by (simp add: validateEntries_def validateFrom_eq)
next
  assume "i < length es"
  then show "filter (\<lambda>v. index v = i) (validateEntries es) = violations i (es ! i)"
    by (rule errors_at_index)
  then show "length (filter (\<lambda>v. index v = i) (validateEntries es)) = card {r. violates r (es ! i)}"
    by (simp add: violations_def violated_card)
next
  assume "i < length es \<and> card {r. violates r (es ! i)} = 2"
  then show "length (filter (\<lambda>v. index v = i) (validateEntries es)) = 2"
    using errors_at_index [of i es] by (simp add: violations_def violated_card)
qed

theorem validation_independence_witness:
  "(1::nat) < length
      [\<lparr>type = Some ''music'', title = Some ''Track 1'', content = Some ''My song'',
         url = None, metadata = JUndefined\<rparr>,
       \<lparr>type = Some ''bogus'', title = None, content = Some ''x'',
         url = None, metadata = JUndefined\<rparr>,
       \<lparr>type = Some ''book'', title = Some ''B'', content = Some ''  '',
         url = None, metadata = JUndefined\<rparr>]
   \<and> card {r. violates r
        ([\<lparr>type = Some ''music'', title = Some ''Track 1'', content = Some ''My song'',
           url = None, metadata = JUndefined\<rparr>,
          \<lparr>type = Some ''bogus'', title = None, content = Some ''x'',
           url = None, metadata = JUndefined\<rparr>,
          \<lparr>type = Some ''book'', title = Some ''B'', content = Some ''  '',
           url = None, metadata = JUndefined\<rparr>] ! 1)} = 2
   \<and> length (filter (\<lambda>v. index v = 1) (validateEntries
        [\<lparr>type = Some ''music'', title = Some ''Track 1'', content = Some ''My song'',
           url = None, metadata = JUndefined\<rparr>,
         \<lparr>type = Some ''bogus'', title = None, content = Some ''x'',
           url = None, metadata = JUndefined\<rparr>,
         \<lparr>type = Some ''book'', title = Some ''B'', content = Some ''  '',
           url = None, metadata = JUndefined\<rparr>])) = 2
   \<and> validateEntries
        [\<lparr>type = Some ''music'', title = Some ''Track 1'', content = Some ''My song'',
           url = None, metadata = JUndefined\<rparr>,
         \<lparr>type = Some ''bogus'', title = None, content = Some ''x'',
           url = None, metadata = JUndefined\<rparr>,
         \<lparr>type = Some ''book'', title = Some ''B'', content = Some ''  '',
           url = None, metadata = JUndefined\<rparr>]
       = [\<lparr>index = 1, error = ''Invalid type: bogus. Must be one of: website, book, music, artist, feature, blog''\<rparr>,
          \<lparr>index = 1, error = ''Missing or empty title''\<rparr>,
          \<lparr>index = 2, error = ''Missing or empty content''\<rparr>]"
proof -
  let ?es = "[\<lparr>type = Some ''music'', title = Some ''Track 1'', content = Some ''My song'',
         url = None, metadata = JUndefined\<rparr>,
       \<lparr>type = Some ''bogus'', title = None, content = Some ''x'',
         url = None, metadata = JUndefined\<rparr>,
       \<lparr>type = Some ''book'', title = Some ''B'', content = Some ''  '',
         url = None, metadata = JUndefined\<rparr>]"
  have l: "(1::nat) < length ?es" by simp
  have "length (violated (?es ! 1)) = 2" by code_simp
  then have c: "card {r. violates r (?es ! 1)} = 2" by (simp only: violated_card)
  have v: "validateEntries ?es
       = [\<lparr>index = 1, error = ''Invalid type: bogus. Must be one of: website, book, music, artist, feature, blog''\<rparr>,
          \<lparr>index = 1, error = ''Missing or empty title''\<rparr>,
          \<lparr>index = 2, error = ''Missing or empty content''\<rparr>]"
    by code_simp
  from validation_independence [of ?es 1] l c
  have "length (filter (\<lambda>v. index v = 1) (validateEntries ?es)) = 2" by blast
  with l c v show ?thesis by blast
qed

section \<open>A metadata cell that does not parse\<close>

lemma csvToEntries_raises:
  "r \<in> set rows \<Longrightarrow> rowToEntry P r = Inl e \<Longrightarrow> \<exists>e'. csvToEntries P rows = Inl e'"
proof (induction rows)
  case Nil
  then show ?case by simp
next
  case (Cons a rows)
  then show ?case by (cases "rowToEntry P a"; cases "csvToEntries P rows") auto
qed

lemma rowToEntry_raises:
  "field r ''metadata'' = Some m \<Longrightarrow> m \<noteq> [] \<Longrightarrow> JSON_parse P m = Inl e \<Longrightarrow>
   rowToEntry P r = Inl e"
  by (simp add: rowToEntry_def)

text \<open>
  C9. A row whose metadata cell is non-empty and rejected by \<^verbatim>\<open>JSON.parse\<close> makes the
  mapping step throw: \<^verbatim>\<open>csvToEntries\<close> returns no entries for any row sequence holding
  such a row. The exception is not folded into per-row errors: \<^verbatim>\<open>importFromCSV\<close> gives
  up the whole batch and returns the batch-level result (no rows counted, one synthetic
  record at index 0 wherever the offending row stands), the storage untouched.
\<close>

theorem metadata_parse_failure:
  assumes "r \<in> set rows" and "field r ''metadata'' = Some m" and "m \<noteq> []"
    and "JSON_parse P m = Inl e"
  shows "rowToEntry P r = Inl e
         \<and> (\<exists>e'. csvToEntries P rows = Inl e'
                \<and> (parseCSV inp = Inr rows \<longrightarrow>
                     importFromCSV P S db u inp =
                       (\<lparr>success = False, totalRows = 0, importedRows = 0, skippedRows = 0,
                         errors = [\<lparr>rowIndex = 0,
                                    rowError = ''CSV parsing failed: '' @ message_of e'\<rparr>]\<rparr>,
                        db)))"
proof -
  have a: "rowToEntry P r = Inl e"
    using assms(2-4) by (rule rowToEntry_raises)
  from csvToEntries_raises [OF assms(1) a]
  obtain e' where e': "csvToEntries P rows = Inl e'" ..
  then have "parseCSV inp = Inr rows \<longrightarrow>
                     importFromCSV P S db u inp =
                       (\<lparr>success = False, totalRows = 0, importedRows = 0, skippedRows = 0,
                         errors = [\<lparr>rowIndex = 0,
                                    rowError = ''CSV parsing failed: '' @ message_of e'\<rparr>]\<rparr>,
                        db)"
    by (simp add: importFromCSV_def failed_def)
  with a e' show ?thesis by blast
qed

theorem metadata_parse_failure_witness:
  "[(''type'', ''book''), (''title'', ''B''), (''content'', ''x''), (''metadata'', ''{bad'')]
     \<in> set [[(''type'', ''music''), (''title'', ''Track 1''), (''content'', ''My song''),
              (''metadata'', [])],
             [(''type'', ''book''), (''title'', ''B''), (''content'', ''x''),
              (''metadata'', ''{bad'')]]
   \<and> field [(''type'', ''book''), (''title'', ''B''), (''content'', ''x''),
             (''metadata'', ''{bad'')] ''metadata'' = Some ''{bad''
   \<and> JSON_parse node ''{bad'' = Inl (Error ''Unexpected token in JSON'')
   \<and> parseCSV ''type,title,content,metadata\<newline>music,Track 1,My song,\<newline>book,B,x,{bad''
       = Inr [[(''type'', ''music''), (''title'', ''Track 1''), (''content'', ''My song''),
               (''metadata'', [])],
              [(''type'', ''book''), (''title'', ''B''), (''content'', ''x''),
               (''metadata'', ''{bad'')]]
   \<and> importFromCSV node memory (Some \<lparr>table = [], capacity = 5\<rparr>) 7
         ''type,title,content,metadata\<newline>music,Track 1,My song,\<newline>book,B,x,{bad''
       = (\<lparr>success = False, totalRows = 0, importedRows = 0, skippedRows = 0,
           errors = [\<lparr>rowIndex = 0,
                      rowError = ''CSV parsing failed: Unexpected token in JSON''\<rparr>]\<rparr>,
          Some \<lparr>table = [], capacity = 5\<rparr>)"
proof -
  let ?bad = "[(''type'', ''book''), (''title'', ''B''), (''content'', ''x''),
               (''metadata'', ''{bad'')]"
  let ?rows = "[[(''type'', ''music''), (''title'', ''Track 1''), (''content'', ''My song''),
               (''metadata'', [])], ?bad]"
  let ?inp = "''type,title,content,metadata\<newline>music,Track 1,My song,\<newline>book,B,x,{bad''"
  have m: "?bad \<in> set ?rows" by simp
  have f: "field ?bad ''metadata'' = Some ''{bad''" by (simp add: field_def)
  have n: "''{bad'' \<noteq> []" by simp
  have j: "JSON_parse node ''{bad'' = Inl (Error ''Unexpected token in JSON'')" by code_simp
  have p: "parseCSV ?inp = Inr ?rows" by code_simp
  from metadata_parse_failure [OF m f n j, of ?inp memory "Some \<lparr>table = [], capacity = 5\<rparr>" 7] p
  obtain e' where e': "csvToEntries node ?rows = Inl e'"
    and r: "importFromCSV node memory (Some \<lparr>table = [], capacity = 5\<rparr>) 7 ?inp =
       (\<lparr>success = False, totalRows = 0, importedRows = 0, skippedRows = 0,
         errors = [\<lparr>rowIndex = 0, rowError = ''CSV parsing failed: '' @ message_of e'\<rparr>]\<rparr>,
        Some \<lparr>table = [], capacity = 5\<rparr>)"
    by blast
  have "csvToEntries node ?rows = Inl (Error ''Unexpected token in JSON'')" by code_simp
  with e' have "e' = Error ''Unexpected token in JSON''" by simp
  with r m f j p show ?thesis by simp
qed

section \<open>The exports\<close>

text \<open>
  C1. Both exports take \<open>userId\<close> and never use it: the query reads the whole table.
  Here the table holds one entry of owner 1 and one of owner 2, and the export for
  owner 1 returns both, in both formats.
\<close>

theorem export_ignores_owner:
  \<open>exportAsCSV memory
     (Some \<lparr>table = [\<lparr>k_userId = 1, k_type = ''website'', k_title = ''Mine'',
                        k_content = ''A'', k_url = None, k_metadata = None\<rparr>,
                      \<lparr>k_userId = 2, k_type = ''book'', k_title = ''Theirs'',
                        k_content = ''B'', k_url = None, k_metadata = None\<rparr>],
            capacity = 2\<rparr>) 1
   = Inr ''type,title,content,url,metadata\<newline>"website","Mine","A","",""\<newline>"book","Theirs","B","",""\<newline>''
   \<and> exportAsJSON node memory
     (Some \<lparr>table = [\<lparr>k_userId = 1, k_type = ''website'', k_title = ''Mine'',
                        k_content = ''A'', k_url = None, k_metadata = None\<rparr>,
                      \<lparr>k_userId = 2, k_type = ''book'', k_title = ''Theirs'',
                        k_content = ''B'', k_url = None, k_metadata = None\<rparr>],
            capacity = 2\<rparr>) 1
   = Inr ''[\<newline>  {\<newline>    "type": "website",\<newline>    "title": "Mine",\<newline>    "content": "A",\<newline>    "url": null\<newline>  },\<newline>  {\<newline>    "type": "book",\<newline>    "title": "Theirs",\<newline>    "content": "B",\<newline>    "url": null\<newline>  }\<newline>]''\<close>
  by code_simp





section \<open>Exporting delimited text and reading it back\<close>

lemma split_no_sep: "c \<notin> set s \<Longrightarrow> split c s = [s]"
  by (induction s) auto

lemma split_append_sep: "c \<notin> set s \<Longrightarrow> split c (s @ c # t) = s # split c t"
  by (induction s) auto

lemma split_lines:
  "\<forall>l \<in> set ls. c \<notin> set l \<Longrightarrow> split c (concat (map (\<lambda>l. l @ [c]) ls)) = ls @ [[]]"
  by (induction ls) (simp_all add: split_append_sep)

lemma not_space_quote: "\<not> is_space (CHR 0x22)"
  by (simp add: is_space_def)

lemma trim_quoted: "trim (quoted s) = quoted s"
proof -
  have a: "dropWhile is_space (quoted s) = quoted s"
    by (simp add: quoted_def not_space_quote)
  have "rev (quoted s) = quoted (rev s)" by (simp add: quoted_def)
  then have "dropWhile is_space (rev (quoted s)) = rev (quoted s)"
    by (simp add: quoted_def not_space_quote)
  with a show ?thesis by (simp add: trim_def)
qed

lemma quoted_not_Nil: "quoted s \<noteq> []"
  by (simp add: quoted_def)

lemma doubleQuotes_id: "CHR 0x22 \<notin> set s \<Longrightarrow> doubleQuotes s = s"
  by (induction s) (auto simp: doubleQuotes_def)

lemma csvLine_body: "csvLine e = csvBody e @ [CHR 0x0A]"
  by (simp add: csvLine_def csvBody_def)

lemma csvBody_quoted: "\<exists>t. csvBody e = quoted t"
proof -
  have "csvBody e = quoted (k_type e @ [CHR 0x22] @ '','' @ quoted (doubleQuotes (k_title e)) @ '',''
     @ quoted (doubleQuotes (k_content e)) @ '','' @ quoted (or_else (k_url e) [])
     @ '','' @ [CHR 0x22] @ or_else (k_metadata e) [])"
    by (simp add: csvBody_def quoted_def)
  then show ?thesis ..
qed

lemma trim_csvBody: "trim (csvBody e) \<noteq> []"
proof -
  from csvBody_quoted obtain t where "csvBody e = quoted t" ..
  then show ?thesis by (simp add: trim_quoted quoted_not_Nil)
qed

lemma comma_quoted: "CHR '','' \<notin> set s \<Longrightarrow> CHR '','' \<notin> set (quoted s)"
  by (simp add: quoted_def)

lemma nl_quoted: "CHR 0x0A \<notin> set s \<Longrightarrow> CHR 0x0A \<notin> set (quoted s)"
  by (simp add: quoted_def)

lemma csvBody_plain:
  assumes "plainEntry e"
  shows "csvBody e = quoted (k_type e) @ CHR '','' # quoted (k_title e) @ CHR '','' #
           quoted (k_content e) @ CHR '','' # quoted (or_else (k_url e) []) @ CHR '','' #
           quoted (or_else (k_metadata e) [])"
  using assms by (simp add: csvBody_def plainEntry_def doubleQuotes_id)

lemma split_csvBody:
  assumes "plainEntry e"
  shows "split (CHR '','') (csvBody e) =
     [quoted (k_type e), quoted (k_title e), quoted (k_content e),
      quoted (or_else (k_url e) []), quoted (or_else (k_metadata e) [])]"
proof -
  from assms have c: "CHR '','' \<notin> set (quoted (k_type e))" "CHR '','' \<notin> set (quoted (k_title e))"
    "CHR '','' \<notin> set (quoted (k_content e))" "CHR '','' \<notin> set (quoted (or_else (k_url e) []))"
    "CHR '','' \<notin> set (quoted (or_else (k_metadata e) []))"
    by (simp_all add: plainEntry_def plainText_def comma_quoted)
  show ?thesis
    by (simp only: csvBody_plain [OF assms] split_append_sep [OF c(1)] split_append_sep [OF c(2)]
        split_append_sep [OF c(3)] split_append_sep [OF c(4)] split_no_sep [OF c(5)])
qed

lemma nl_csvBody:
  assumes "plainEntry e"
  shows "CHR 0x0A \<notin> set (csvBody e)"
  using assms by (simp add: csvBody_plain plainEntry_def plainText_def quoted_def)

lemma header_facts:
  "trim ''type,title,content,url,metadata'' \<noteq> []"
  "CHR 0x0A \<notin> set ''type,title,content,url,metadata''"
  "map trim (split (CHR '','') ''type,title,content,url,metadata'')
     = [''type'', ''title'', ''content'', ''url'', ''metadata'']"
  by code_simp+

lemma row_of_body:
  assumes "plainEntry e"
  shows "fillRow [''type'', ''title'', ''content'', ''url'', ''metadata'']
           (map trim (split (CHR '','') (csvBody e))) 0 [] = quotedRow e"
  by (simp add: split_csvBody [OF assms] trim_quoted cell_def quotedRow_def)

lemma export_text:
  assumes "db_select S d = Inr es" "es \<noteq> []"
  shows "exportAsCSV S (Some d) u =
     Inr (concat (map (\<lambda>l. l @ [CHR 0x0A]) (''type,title,content,url,metadata'' # map csvBody es)))"
proof -
  have "csvLine = (\<lambda>e. csvBody e @ [CHR 0x0A])"
    by (rule ext) (rule csvLine_body)
  then have "concat (map csvLine es) = concat (map (\<lambda>l. l @ [CHR 0x0A]) (map csvBody es))"
    by (simp add: comp_def)
  with assms show ?thesis by (simp add: exportAsCSV_def)
qed

lemma parse_export:
  assumes "es \<noteq> []" and "\<forall>e \<in> set es. plainEntry e"
  shows "parseCSV (concat (map (\<lambda>l. l @ [CHR 0x0A])
            (''type,title,content,url,metadata'' # map csvBody es))) = Inr (map quotedRow es)"
proof -
  let ?h = "''type,title,content,url,metadata''"
  let ?ls = "?h # map csvBody es"
  have "\<forall>l \<in> set ?ls. CHR 0x0A \<notin> set l"
    using assms(2) header_facts(2) nl_csvBody by auto
  then have sp: "split (CHR 0x0A) (concat (map (\<lambda>l. l @ [CHR 0x0A]) ?ls)) = ?ls @ [[]]"
    by (rule split_lines)
  have fl: "filter (\<lambda>line. trim line \<noteq> []) (?ls @ [[]]) = ?ls"
    by (simp add: trim_csvBody header_facts(1) trim_Nil)
  have len: "\<not> length ?ls < 2" using assms(1) by (cases es) simp_all
  have rows: "map (\<lambda>line. fillRow [''type'', ''title'', ''content'', ''url'', ''metadata'']
                     (map trim (split (CHR '','') line)) 0 []) (map csvBody es)
              = map quotedRow es"
  proof -
    have "\<And>e. e \<in> set es \<Longrightarrow>
            fillRow [''type'', ''title'', ''content'', ''url'', ''metadata'']
              (map trim (split (CHR '','') (csvBody e))) 0 [] = quotedRow e"
      using assms(2) by (blast intro: row_of_body)
    then show ?thesis
      unfolding map_map comp_def by (rule map_cong [OF refl])
  qed
  show ?thesis
    unfolding parseCSV_def sp fl Let_def
    using len rows header_facts(3) by simp
qed

lemma rowToEntry_quotedRow:
  assumes "rowToEntry P (quotedRow e) = Inr x"
  shows "type x = Some (quoted (k_type e)) \<and> title x = Some (quoted (k_title e))
         \<and> content x = Some (quoted (k_content e))
         \<and> url x = Some (quoted (or_else (k_url e) []))"
  using assms
  by (auto simp: rowToEntry_def quotedRow_def field_def quoted_def split: sum.splits if_splits)

lemma csvToEntries_quotedRows:
  "csvToEntries P (map quotedRow es) = Inr xs \<Longrightarrow>
   map (\<lambda>x. (type x, title x, content x, url x)) xs
   = map (\<lambda>e. (Some (quoted (k_type e)), Some (quoted (k_title e)),
               Some (quoted (k_content e)), Some (quoted (or_else (k_url e) [])))) es"
proof (induction es arbitrary: xs)
  case Nil
  then show ?case by simp
next
  case (Cons e es)
  from Cons.prems obtain x xs' where x: "rowToEntry P (quotedRow e) = Inr x"
    and xs': "csvToEntries P (map quotedRow es) = Inr xs'" and xs: "xs = x # xs'"
    by (auto split: sum.splits)
  from rowToEntry_quotedRow [OF x] Cons.IH [OF xs'] xs show ?case by simp
qed


lemma quoted_neq: "quoted s \<noteq> s"
proof
  assume "quoted s = s"
  then have "length (quoted s) = length s" by simp
  then show False by (simp add: quoted_def)
qed

text \<open>
  C4, as stated, fails: the export wraps every field in double quotes and the parser
  does not interpret quotes, so the quotes come back as part of each field (and the
  absent url comes back as a text of two quote characters).
\<close>

theorem csv_round_trip_counterexample:
  \<open>exportAsCSV memory
     (Some \<lparr>table = [\<lparr>k_userId = 1, k_type = ''music'', k_title = ''Track 1'',
                        k_content = ''My song'', k_url = None, k_metadata = None\<rparr>],
            capacity = 1\<rparr>) 1
   = Inr ''type,title,content,url,metadata\<newline>"music","Track 1","My song","",""\<newline>''
   \<and> parseCSV ''type,title,content,url,metadata\<newline>"music","Track 1","My song","",""\<newline>''
     = Inr [[(''type'', ''"music"''), (''title'', ''"Track 1"''), (''content'', ''"My song"''),
             (''url'', ''""''), (''metadata'', ''""'')]]
   \<and> csvToEntries node
       [[(''type'', ''"music"''), (''title'', ''"Track 1"''), (''content'', ''"My song"''),
         (''url'', ''""''), (''metadata'', ''""'')]]
     = Inr [\<lparr>type = Some ''"music"'', title = Some ''"Track 1"'',
              content = Some ''"My song"'', url = Some ''""'', metadata = JStr []\<rparr>]
   \<and> (Some ''"music"'', Some ''"Track 1"'', Some ''"My song"'', Some ''""'')
     \<noteq> (Some ''music'', Some ''Track 1'', Some ''My song'', None)\<close>
  by code_simp

text \<open>
  C4, amended. For a non-empty sequence of stored entries whose exported fields hold no
  comma and no line feed and whose title and content hold no double quote, the text of
  \<^verbatim>\<open>exportAsCSV\<close> parses, and \<^verbatim>\<open>parseCSV\<close> returns one row per entry, in order, whose
  cells are the stored values each enclosed in double quotes (an absent url or metadata
  giving the text of two quote characters). Whenever \<^verbatim>\<open>csvToEntries\<close> returns entries
  for these rows, their type, title, content and url are these quoted texts, which
  differ from the originals.
\<close>

theorem csv_round_trip_quoted:
  assumes "db_select S d = Inr es" and "es \<noteq> []" and "\<forall>e \<in> set es. plainEntry e"
  shows "\<exists>csv. exportAsCSV S (Some d) u = Inr csv
           \<and> parseCSV csv = Inr (map quotedRow es)
           \<and> (\<forall>xs. csvToEntries P (map quotedRow es) = Inr xs \<longrightarrow>
                map (\<lambda>x. (type x, title x, content x, url x)) xs
                = map (\<lambda>e. (Some (quoted (k_type e)), Some (quoted (k_title e)),
                            Some (quoted (k_content e)),
                            Some (quoted (or_else (k_url e) [])))) es)
           \<and> (\<forall>s. quoted s \<noteq> s)"
proof -
  let ?csv = "concat (map (\<lambda>l. l @ [CHR 0x0A])
                (''type,title,content,url,metadata'' # map csvBody es))"
  have "exportAsCSV S (Some d) u = Inr ?csv"
    using assms(1,2) by (rule export_text)
  moreover have "parseCSV ?csv = Inr (map quotedRow es)"
    using assms(2,3) by (rule parse_export)
  ultimately show ?thesis
    using csvToEntries_quotedRows quoted_neq by blast
qed

theorem csv_round_trip_quoted_witness:
  \<open>db_select memory
      \<lparr>table = [\<lparr>k_userId = 1, k_type = ''music'', k_title = ''Track 1'',
                  k_content = ''My song'', k_url = Some ''https://example.com'',
                  k_metadata = None\<rparr>], capacity = 1\<rparr>
     = Inr [\<lparr>k_userId = 1, k_type = ''music'', k_title = ''Track 1'',
              k_content = ''My song'', k_url = Some ''https://example.com'',
              k_metadata = None\<rparr>]
   \<and> plainEntry \<lparr>k_userId = 1, k_type = ''music'', k_title = ''Track 1'',
                  k_content = ''My song'', k_url = Some ''https://example.com'',
                  k_metadata = None\<rparr>
   \<and> exportAsCSV memory
       (Some \<lparr>table = [\<lparr>k_userId = 1, k_type = ''music'', k_title = ''Track 1'',
                  k_content = ''My song'', k_url = Some ''https://example.com'',
                  k_metadata = None\<rparr>], capacity = 1\<rparr>) 1
     = Inr ''type,title,content,url,metadata\<newline>"music","Track 1","My song","https://example.com",""\<newline>''
   \<and> parseCSV ''type,title,content,url,metadata\<newline>"music","Track 1","My song","https://example.com",""\<newline>''
     = Inr [[(''type'', ''"music"''), (''title'', ''"Track 1"''), (''content'', ''"My song"''),
             (''url'', ''"https://example.com"''), (''metadata'', ''""'')]]
   \<and> map (\<lambda>x. (type x, title x, content x, url x))
         [\<lparr>type = Some ''"music"'', title = Some ''"Track 1"'', content = Some ''"My song"'',
           url = Some ''"https://example.com"'', metadata = JStr []\<rparr>]
     = [(Some ''"music"'', Some ''"Track 1"'', Some ''"My song"'',
         Some ''"https://example.com"'')]\<close>
proof -
  let ?e = "\<lparr>k_userId = 1, k_type = ''music'', k_title = ''Track 1'',
                  k_content = ''My song'', k_url = Some ''https://example.com'',
                  k_metadata = None\<rparr>"
  let ?d = "\<lparr>table = [?e], capacity = 1\<rparr>"
  let ?csv = \<open>''type,title,content,url,metadata\<newline>"music","Track 1","My song","https://example.com",""\<newline>''\<close>
  have sel: "db_select memory ?d = Inr [?e]" by (simp add: memory_def)
  have ne: "[?e] \<noteq> []" by simp
  have pl: "plainEntry ?e" by code_simp
  then have all: "\<forall>e \<in> set [?e]. plainEntry e" by simp
  have ex: "exportAsCSV memory (Some ?d) 1 = Inr ?csv" by code_simp
  have qr: \<open>map quotedRow [?e]
     = [[(''type'', ''"music"''), (''title'', ''"Track 1"''), (''content'', ''"My song"''),
             (''url'', ''"https://example.com"''), (''metadata'', ''""'')]]\<close>
    by code_simp
  have cv: \<open>csvToEntries node (map quotedRow [?e])
     = Inr [\<lparr>type = Some ''"music"'', title = Some ''"Track 1"'', content = Some ''"My song"'',
           url = Some ''"https://example.com"'', metadata = JStr []\<rparr>]\<close>
    by code_simp
  from csv_round_trip_quoted [OF sel ne all, of 1 node]
  obtain csv where a: "exportAsCSV memory (Some ?d) 1 = Inr csv"
    and b: "parseCSV csv = Inr (map quotedRow [?e])"
    and c: "\<forall>xs. csvToEntries node (map quotedRow [?e]) = Inr xs \<longrightarrow>
                map (\<lambda>x. (type x, title x, content x, url x)) xs
                = map (\<lambda>e. (Some (quoted (k_type e)), Some (quoted (k_title e)),
                            Some (quoted (k_content e)),
                            Some (quoted (or_else (k_url e) [])))) [?e]"
    by blast
  from a ex have "csv = ?csv" by simp
  with b qr have p: \<open>parseCSV ?csv
     = Inr [[(''type'', ''"music"''), (''title'', ''"Track 1"''), (''content'', ''"My song"''),
             (''url'', ''"https://example.com"''), (''metadata'', ''""'')]]\<close>
    by simp
  from c cv have \<open>map (\<lambda>x. (type x, title x, content x, url x))
         [\<lparr>type = Some ''"music"'', title = Some ''"Track 1"'', content = Some ''"My song"'',
           url = Some ''"https://example.com"'', metadata = JStr []\<rparr>]
     = map (\<lambda>e. (Some (quoted (k_type e)), Some (quoted (k_title e)),
                            Some (quoted (k_content e)),
                            Some (quoted (or_else (k_url e) [])))) [?e]\<close>
    by blast
  then have m: \<open>map (\<lambda>x. (type x, title x, content x, url x))
         [\<lparr>type = Some ''"music"'', title = Some ''"Track 1"'', content = Some ''"My song"'',
           url = Some ''"https://example.com"'', metadata = JStr []\<rparr>]
     = [(Some ''"music"'', Some ''"Track 1"'', Some ''"My song"'',
         Some ''"https://example.com"'')]\<close>
    by simp
  from sel pl ex p m show ?thesis by blast
qed

end
